theory Spec2Isabelle
  imports Main
begin

section \<open>The external collaborator\<close>

text \<open>
  The package of \<^verbatim>\<open>git.go\<close> drives the \<^verbatim>\<open>git\<close> binary. A Go \<^verbatim>\<open>error\<close> is either
  the failure reported by \<^verbatim>\<open>exec.Command(...).Output()\<close> or a value built by
  \<^verbatim>\<open>fmt.Errorf\<close>; \<^verbatim>\<open>nil\<close> is \<open>None\<close>.
\<close>

datatype error = CmdError string | Errorf string

text \<open>
  \<^verbatim>\<open>Get(opts...)\<close> returns the captured standard output and the error of the
  process. The binary is a parameter of the model: a function from the argument vector
  to what \<^verbatim>\<open>Get\<close> returns. \<^verbatim>\<open>Do(opts...)\<close> returns the exit code of
  \<^verbatim>\<open>utils.RunCmd\<close>; it is a parameter as well.
\<close>

type_synonym git_get = "string list \<Rightarrow> string \<times> error option"
type_synonym git_run = "string list \<Rightarrow> int"

definition newline :: char where
  "newline = CHR 0x0A"

definition tab :: char where
  "tab = CHR 0x09"

definition head_rev :: string where
  \<comment> \<open>the revision expression at-sign, open brace, 0, close brace of lines 148 and 158\<close>
  "head_rev = CHR 0x40 # ''{0}''"

section \<open>RemoteStatus\<close>

definition RemoteStatus :: "git_get \<Rightarrow> string \<Rightarrow> string \<times> error option" where
  "RemoteStatus get remote =
     (case get [''rev-parse'', head_rev] of
        (v, Some err) \<Rightarrow> ('''', Some err)
      | (local_rev, None) \<Rightarrow>
     (case get [''rev-parse'', remote] of
        (v, Some err) \<Rightarrow> ('''', Some err)
      | (remote_rev, None) \<Rightarrow>
     (case get [''merge-base'', head_rev, remote] of
        (v, Some err) \<Rightarrow> ('''', Some err)
      | (base_rev, None) \<Rightarrow>
          if local_rev = remote_rev then (''='', None)
          else if local_rev = base_rev then (''-1'', None)
          else if remote_rev = base_rev then (''+1'', None)
          else (''-1+1'', None))))"

text \<open>
  A binary that answers the three revision queries of \<^const>\<open>RemoteStatus\<close> with the
  given outputs and no error.
\<close>

definition revs :: "string \<Rightarrow> string \<Rightarrow> string \<Rightarrow> string \<Rightarrow> git_get" where
  "revs remote l r b opts =
     (if opts = [''rev-parse'', head_rev] then (l, None)
      else if opts = [''rev-parse'', remote] then (r, None)
      else if opts = [''merge-base'', head_rev, remote] then (b, None)
      else ('''', Some (CmdError ''exit status 1'')))"

text \<open>
  Modelled from the spec: the trimming of a revision identifier. \<^verbatim>\<open>git.go\<close> has no
  trimming function; the spec (4.2) speaks of identifiers "trimmed of surrounding
  whitespace before comparison". \<open>trim\<close> removes the leading and the trailing run of
  ASCII white space (space, tab, line feed, vertical tab, form feed, carriage return).
\<close>

definition is_space :: "char \<Rightarrow> bool" where
  "is_space c \<longleftrightarrow> c \<in> {CHR '' '', CHR 0x09, CHR 0x0A, CHR 0x0B, CHR 0x0C, CHR 0x0D}"

definition trim :: "string \<Rightarrow> string" where
  "trim s = rev (dropWhile is_space (rev (dropWhile is_space s)))"

text \<open>A binary on which the remote ref does not resolve.\<close>

definition no_remote_ref :: git_get where
  "no_remote_ref opts =
     (if opts = [''rev-parse'', ''origin/gone''] then ('''', Some (CmdError ''exit status 128''))
      else (''a1'', None))"

section \<open>Regular expressions\<close>

text \<open>
  The three patterns of \<^verbatim>\<open>git.go\<close> (lines 32, 33 and 205) are built from single
  characters, character classes, greedy repetition of a class, concatenation,
  alternation, capture groups and the two anchors. Go's \<^verbatim>\<open>regexp\<close> prefers the
  leftmost match and, among the matches that start there, the one a backtracking search
  finds first: a greedy repetition tries the longest run first, an alternation its left
  branch first. A dot matches any character but the line feed and \<^verbatim>\<open>\w\<close> is
  \<^verbatim>\<open>[0-9A-Za-z_]\<close>; without flags \<^verbatim>\<open>$\<close> matches at the end of the text only.
\<close>

datatype cls = Lit char | OneOf string | Dot | WordChar

fun in_cls :: "cls \<Rightarrow> char \<Rightarrow> bool" where
  "in_cls (Lit c) x \<longleftrightarrow> x = c"
| "in_cls (OneOf cs) x \<longleftrightarrow> x \<in> set cs"
| "in_cls Dot x \<longleftrightarrow> x \<noteq> newline"
| "in_cls WordChar x \<longleftrightarrow>
     x \<in> set ''0123456789ABCDEFGHIJKLMNOPQRSTUVWXYZabcdefghijklmnopqrstuvwxyz_''"

datatype re =
    One cls            \<comment> \<open>one character of the class\<close>
  | Str string         \<comment> \<open>a literal string\<close>
  | Star cls           \<comment> \<open>greedy \<^verbatim>\<open>*\<close> of a class\<close>
  | Plus cls           \<comment> \<open>greedy \<^verbatim>\<open>+\<close> of a class\<close>
  | Cat re re
  | Alt re re
  | Grp re             \<comment> \<open>a capture group\<close>
  | Eot                \<comment> \<open>\<^verbatim>\<open>$\<close>\<close>

text \<open>
  \<open>matches r s\<close> lists the ways \<open>r\<close> matches a prefix of \<open>s\<close>, in the order of
  preference: each way is the list of the groups captured, in the order of their opening
  parentheses, and the rest of \<open>s\<close>. No pattern of \<^verbatim>\<open>git.go\<close> has a group inside an
  alternation or a repetition, so every way of a pattern lists all its groups.
\<close>

fun matches :: "re \<Rightarrow> string \<Rightarrow> (string list \<times> string) list" where
  "matches (One c) s = (case s of [] \<Rightarrow> [] | x # xs \<Rightarrow> if in_cls c x then [([], xs)] else [])"
| "matches (Str t) s = (if take (length t) s = t then [([], drop (length t) s)] else [])"
| "matches (Star c) s =
     map (\<lambda>k. ([], drop k s)) (rev [0 ..< Suc (length (takeWhile (in_cls c) s))])"
| "matches (Plus c) s =
     map (\<lambda>k. ([], drop k s)) (rev [1 ..< Suc (length (takeWhile (in_cls c) s))])"
| "matches (Cat r1 r2) s =
     concat (map (\<lambda>(g1, s1). map (\<lambda>(g2, s2). (g1 @ g2, s2)) (matches r2 s1)) (matches r1 s))"
| "matches (Alt r1 r2) s = matches r1 s @ matches r2 s"
| "matches (Grp r) s = map (\<lambda>(g, s'). (take (length s - length s') s # g, s')) (matches r s)"
| "matches Eot s = (if s = [] then [([], [])] else [])"

text \<open>
  \<^verbatim>\<open>FindStringSubmatch\<close> for a pattern that starts with \<^verbatim>\<open>^\<close>, as the three patterns
  do: a match can only start at offset 0, so the leading anchor is modelled by matching
  from the start of the text and \<open>r\<close> is the pattern after it. The result is \<open>None\<close> for
  Go's \<^verbatim>\<open>nil\<close>, otherwise the matched text followed by the captured groups.
\<close>

definition FindStringSubmatch :: "re \<Rightarrow> string \<Rightarrow> string list option" where
  "FindStringSubmatch r s =
     (case matches r s of
        [] \<Rightarrow> None
      | (g, rest) # _ \<Rightarrow> Some (take (length s - length rest) s # g))"

definition ReadyRE :: re where
  \<comment> \<open>\<^verbatim>\<open>^([ADM])  (.*)$\<close>\<close>
  "ReadyRE = Cat (Grp (One (OneOf ''ADM''))) (Cat (Str ''  '') (Cat (Grp (Star Dot)) Eot))"

definition NotReadyRE :: re where
  \<comment> \<open>\<^verbatim>\<open>^ ([?ADM]) (.*)$\<close>\<close>
  "NotReadyRE =
     Cat (Str '' '') (Cat (Grp (One (OneOf ''?ADM''))) (Cat (Str '' '') (Cat (Grp (Star Dot)) Eot)))"

definition remMatch :: re where
  \<comment> \<open>\<^verbatim>\<open>^ *(\w+) *(.*) \((fetch|push)\)$\<close>\<close>
  "remMatch =
     Cat (Star (Lit (CHR '' ''))) (Cat (Grp (Plus WordChar)) (Cat (Star (Lit (CHR '' '')))
       (Cat (Grp (Star Dot)) (Cat (Str '' ('') (Cat (Grp (Alt (Str ''fetch'') (Str ''push'')))
         (Cat (Str '')'') Eot))))))"

section \<open>Lines\<close>

text \<open>
  \<^verbatim>\<open>strings.Split(s, "\n")\<close>: the pieces of \<open>s\<close> between the line feeds, one more than
  there are line feeds.
\<close>

fun Split :: "string \<Rightarrow> string list" where
  "Split [] = [[]]"
| "Split (c # cs) =
     (if c = newline then [] # Split cs
      else (case Split cs of [] \<Rightarrow> [[c]] | l # ls \<Rightarrow> (c # l) # ls))"

section \<open>The status snapshot\<close>

text \<open>
  \<^verbatim>\<open>GetStatus\<close> makes both records with \<^verbatim>\<open>make(map[string][]string)\<close>: a map from the
  kind code to the list of paths.
\<close>

type_synonym ChangeRecord = "string \<rightharpoonup> string list"

record Status =
  Ready :: ChangeRecord
  NotReady :: ChangeRecord
  Err :: "error option"

text \<open>The paths a record holds under a kind; a kind that is not a key holds none.\<close>

definition paths :: "ChangeRecord \<Rightarrow> string \<Rightarrow> string list" where
  "paths m k = (case m k of None \<Rightarrow> [] | Some ps \<Rightarrow> ps)"

text \<open>
  Modelled from the spec: the method \<^verbatim>\<open>init\<close> of the record type, which \<^verbatim>\<open>git.go\<close>
  calls (lines 28 and 30) and does not define. By the spec (section 3) the kind codes
  of the ready record are \<open>A\<close>, \<open>D\<close>, \<open>M\<close>, those of the not-ready record \<open>?\<close> as
  well, and a record that nothing was parsed into is empty: the fresh record has these
  kinds, each with no path.
\<close>

definition init :: "bool \<Rightarrow> ChangeRecord \<Rightarrow> ChangeRecord" where
  "init untracked m =
     (let m = m(''A'' \<mapsto> [], ''D'' \<mapsto> [], ''M'' \<mapsto> [])
      in if untracked then m(''?'' \<mapsto> []) else m)"

text \<open>
  Modelled from the spec: the method \<^verbatim>\<open>add\<close> of the record type, which \<^verbatim>\<open>git.go\<close>
  calls (lines 46 and 49) and does not define. By the spec (4.1) "the parsed kind code
  and path are inserted into the corresponding record, preserving the order the lines
  were encountered": the path is appended to the paths of its kind.
\<close>

definition add :: "string \<Rightarrow> string \<Rightarrow> ChangeRecord \<Rightarrow> ChangeRecord" where
  "add k file m = m(k \<mapsto> paths m k @ [file])"

text \<open>
  Modelled from the spec: the method \<^verbatim>\<open>CountTracked\<close> of the record type, which
  \<^verbatim>\<open>git.go\<close> calls (line 72) and does not define. By the spec (4.1) it is the "count of
  tracked (non-untracked) entries across all kinds": the paths under \<open>A\<close>, \<open>D\<close> and
  \<open>M\<close>, the kinds other than \<open>?\<close>.
\<close>

definition CountTracked :: "ChangeRecord \<Rightarrow> nat" where
  "CountTracked m = length (paths m ''A'') + length (paths m ''D'') + length (paths m ''M'')"

section \<open>GetStatus\<close>

text \<open>
  The body of the loop of lines 44 to 51. Both branches add to the ready record, as
  lines 46 and 49 do. A match of either pattern has three elements (the matched text
  and two groups), so \<open>m ! 1\<close> and \<open>m ! 2\<close> are in range.
\<close>

definition classify :: "string \<Rightarrow> Status \<Rightarrow> Status" where
  "classify line gs =
     (let gs = (case FindStringSubmatch ReadyRE line of
                  Some m \<Rightarrow> gs\<lparr>Ready := add (m ! 1) (m ! 2) (Ready gs)\<rparr>
                | None \<Rightarrow> gs)
      in case FindStringSubmatch NotReadyRE line of
           Some m \<Rightarrow> gs\<lparr>Ready := add (m ! 1) (m ! 2) (Ready gs)\<rparr>
         | None \<Rightarrow> gs)"

text \<open>Go's test \<^verbatim>\<open>err != nil\<close>.\<close>

definition failed :: "error option \<Rightarrow> bool" where
  "failed err = (case err of None \<Rightarrow> False | Some e \<Rightarrow> True)"

definition GetStatus :: "git_get \<Rightarrow> Status" where
  "GetStatus get =
     (let gs = \<lparr>Ready = init False Map.empty, NotReady = init True Map.empty, Err = None\<rparr>;
          (s, err) = get [''status'', ''--porcelain''];
          gs = gs\<lparr>Err := err\<rparr>
      in if failed err \<or> s = [] then gs
         else fold classify (Split s) gs)"

text \<open>A binary whose status report is the given text.\<close>

definition status_is :: "string \<Rightarrow> git_get" where
  "status_is s opts =
     (if opts = [''status'', ''--porcelain''] then (s, None)
      else ('''', Some (CmdError ''exit status 1'')))"

text \<open>A binary that fails on every command.\<close>

definition git_fails :: git_get where
  "git_fails opts = ('''', Some (CmdError ''exit status 128''))"

section \<open>Commit\<close>

text \<open>
  \<^verbatim>\<open>Commit\<close> returns its error; the second component lists the argument vectors
  handed to \<^verbatim>\<open>Do\<close>, in order, so that a run that issues no command returns \<open>[]\<close>.
\<close>

definition Commit :: "git_get \<Rightarrow> git_run \<Rightarrow> string \<Rightarrow> bool \<Rightarrow> error option \<times> string list list" where
  "Commit get run msg errorIfEmpty =
     (let s = GetStatus get
      in if CountTracked (Ready s) = 0
         then (if errorIfEmpty then Some (Errorf ''No files to commit. Please check'') else None, [])
         else (if run [''commit'', ''-m'', msg] > 0 then Some (Errorf ''Unable to commit'') else None,
               [[''commit'', ''-m'', msg]]))"

section \<open>RemoteUrl\<close>

text \<open>
  A Go function that panics returns nothing: the result is \<open>Inl\<close> of the panic, or
  \<open>Inr\<close> of the values returned.
\<close>

datatype panic = IndexOutOfRange

text \<open>
  The loop of lines 206 to 210. Where the pattern does not match, \<open>v\<close> is \<^verbatim>\<open>nil\<close> and
  \<^verbatim>\<open>v[0]\<close> panics. A match of \<^const>\<open>remMatch\<close> has four elements, so \<open>v ! 0\<close> and
  \<open>v ! 1\<close> are in range.
\<close>

fun RemoteUrl_loop :: "string list \<Rightarrow> string \<Rightarrow> panic + (string \<times> bool \<times> error option)" where
  "RemoteUrl_loop [] remote = Inr ('''', False, None)"
| "RemoteUrl_loop (aRemote # remotes) remote =
     (case FindStringSubmatch remMatch aRemote of
        None \<Rightarrow> Inl IndexOutOfRange
      | Some v \<Rightarrow> if v ! 0 = remote then Inr (v ! 1, True, None)
                  else RemoteUrl_loop remotes remote)"

definition RemoteUrl :: "git_get \<Rightarrow> string \<Rightarrow> panic + (string \<times> bool \<times> error option)" where
  "RemoteUrl get remote =
     (case get [''remote'', ''-v''] of
        (v, Some err) \<Rightarrow> Inr ('''', False, Some err)
      | (v, None) \<Rightarrow> RemoteUrl_loop (if v = [] then [] else Split v) remote)"

text \<open>A binary whose verbose remote listing is the given text.\<close>

definition remotes_are :: "string \<Rightarrow> git_get" where
  "remotes_are s opts =
     (if opts = [''remote'', ''-v''] then (s, None)
      else ('''', Some (CmdError ''exit status 1'')))"

section \<open>Example inputs\<close>

text \<open>The status report of the end-to-end example of the spec (section 8).\<close>

definition porcelain_example :: string where
  "porcelain_example =
     ''M  src/main.go'' @ [newline] @ '' ? notes.txt'' @ [newline] @ ''A  README.md'' @ [newline]"

text \<open>
  What \<^verbatim>\<open>git remote -v\<close> prints for one remote: a fetch and a push line, the name and
  the URL separated by a tab, each line ended by a line feed.
\<close>

definition fetch_line :: string where
  "fetch_line = ''origin'' @ [tab] @ ''https://example.com/r.git (fetch)''"

definition push_line :: string where
  "push_line = ''origin'' @ [tab] @ ''https://example.com/r.git (push)''"

definition remote_listing :: string where
  "remote_listing = fetch_line @ [newline] @ push_line @ [newline]"

section \<open>Divergence\<close>

lemma RemoteStatus_resolved:
  assumes "get [''rev-parse'', head_rev] = (l, None)"
    and "get [''rev-parse'', remote] = (r, None)"
    and "get [''merge-base'', head_rev, remote] = (b, None)"
  shows "RemoteStatus get remote =
           (if l = r then (''='', None)
            else if l = b then (''-1'', None)
            else if r = b then (''+1'', None)
            else (''-1+1'', None))"
  using assms by (simp add: RemoteStatus_def)

lemma revs_answers:
  "revs ''origin/master'' l r b [''rev-parse'', head_rev] = (l, None)"
  "revs ''origin/master'' l r b [''rev-parse'', ''origin/master''] = (r, None)"
  "revs ''origin/master'' l r b [''merge-base'', head_rev, ''origin/master''] = (b, None)"
  by (simp_all add: revs_def head_rev_def)

text \<open>
  C4. When the three revisions resolve, the result is decided by the four checks of
  lines 164 to 173 in this order, the first that holds winning: equal local and remote
  give \<open>=\<close>, otherwise local equal to base gives \<open>-1\<close>, otherwise remote equal to base
  gives \<open>+1\<close>, otherwise \<open>-1+1\<close>. So three equal revisions give \<open>=\<close>, local equal to
  base and different from remote gives \<open>-1\<close>, remote equal to base and different from
  local gives \<open>+1\<close>, and three pairwise different revisions give \<open>-1+1\<close>.
\<close>

theorem RemoteStatus_compare:
  assumes "get [''rev-parse'', head_rev] = (l, None)"
    and "get [''rev-parse'', remote] = (r, None)"
    and "get [''merge-base'', head_rev, remote] = (b, None)"
  shows "RemoteStatus get remote =
           (if l = r then (''='', None)
            else if l = b then (''-1'', None)
            else if r = b then (''+1'', None)
            else (''-1+1'', None))
       \<and> (l = r \<and> r = b \<longrightarrow> RemoteStatus get remote = (''='', None))
       \<and> (l = b \<and> l \<noteq> r \<longrightarrow> RemoteStatus get remote = (''-1'', None))
       \<and> (r = b \<and> l \<noteq> r \<longrightarrow> RemoteStatus get remote = (''+1'', None))
       \<and> (l \<noteq> r \<and> l \<noteq> b \<and> r \<noteq> b \<longrightarrow> RemoteStatus get remote = (''-1+1'', None))"
  using RemoteStatus_resolved [OF assms] by simp

theorem RemoteStatus_compare_witness:
  "RemoteStatus (revs ''origin/master'' ''a1'' ''a1'' ''a1'') ''origin/master'' = (''='', None)
 \<and> RemoteStatus (revs ''origin/master'' ''a1'' ''b2'' ''a1'') ''origin/master'' = (''-1'', None)
 \<and> RemoteStatus (revs ''origin/master'' ''a1'' ''b2'' ''b2'') ''origin/master'' = (''+1'', None)
 \<and> RemoteStatus (revs ''origin/master'' ''a1'' ''b2'' ''c3'') ''origin/master'' = (''-1+1'', None)"
proof -
  note g = revs_answers
  have "RemoteStatus (revs ''origin/master'' ''a1'' ''a1'' ''a1'') ''origin/master'' = (''='', None)"
    using g RemoteStatus_compare [where get = "revs ''origin/master'' ''a1'' ''a1'' ''a1''" and remote = "''origin/master''"
        and l = "''a1''" and r = "''a1''" and b = "''a1''"] by simp
  moreover have "RemoteStatus (revs ''origin/master'' ''a1'' ''b2'' ''a1'') ''origin/master'' = (''-1'', None)"
    using g RemoteStatus_compare [where get = "revs ''origin/master'' ''a1'' ''b2'' ''a1''" and remote = "''origin/master''"
        and l = "''a1''" and r = "''b2''" and b = "''a1''"] by simp
  moreover have "RemoteStatus (revs ''origin/master'' ''a1'' ''b2'' ''b2'') ''origin/master'' = (''+1'', None)"
    using g RemoteStatus_compare [where get = "revs ''origin/master'' ''a1'' ''b2'' ''b2''" and remote = "''origin/master''"
        and l = "''a1''" and r = "''b2''" and b = "''b2''"] by simp
  moreover have "RemoteStatus (revs ''origin/master'' ''a1'' ''b2'' ''c3'') ''origin/master'' = (''-1+1'', None)"
    using g RemoteStatus_compare [where get = "revs ''origin/master'' ''a1'' ''b2'' ''c3''" and remote = "''origin/master''"
        and l = "''a1''" and r = "''b2''" and b = "''c3''"] by simp
  ultimately show ?thesis by simp
qed

section \<open>Failure of a revision query\<close>

text \<open>
  C5. If one of the three revision queries (local head, remote ref, merge base) returns
  an error, \<^const>\<open>RemoteStatus\<close> returns the empty string together with the error of
  the first query that failed, and its result is none of the four classifications.
\<close>

theorem RemoteStatus_failure:
  assumes "snd (get [''rev-parse'', head_rev]) \<noteq> None
         \<or> snd (get [''rev-parse'', remote]) \<noteq> None
         \<or> snd (get [''merge-base'', head_rev, remote]) \<noteq> None"
  shows "(\<exists>err. RemoteStatus get remote = ('''', Some err)
              \<and> Some err \<in> {snd (get [''rev-parse'', head_rev]),
                              snd (get [''rev-parse'', remote]),
                              snd (get [''merge-base'', head_rev, remote])})
       \<and> fst (RemoteStatus get remote) \<notin> {''='', ''-1'', ''+1'', ''-1+1''}
       \<and> (\<forall>e. snd (get [''rev-parse'', head_rev]) = Some e
              \<longrightarrow> RemoteStatus get remote = ('''', Some e))
       \<and> (\<forall>e. snd (get [''rev-parse'', head_rev]) = None
                \<and> snd (get [''rev-parse'', remote]) = Some e
              \<longrightarrow> RemoteStatus get remote = ('''', Some e))
       \<and> (\<forall>e. snd (get [''rev-parse'', head_rev]) = None
                \<and> snd (get [''rev-parse'', remote]) = None
                \<and> snd (get [''merge-base'', head_rev, remote]) = Some e
              \<longrightarrow> RemoteStatus get remote = ('''', Some e))"
proof -
  obtain v1 e1 where g1: "get [''rev-parse'', head_rev] = (v1, e1)"
    by (cases "get [''rev-parse'', head_rev]")
  obtain v2 e2 where g2: "get [''rev-parse'', remote] = (v2, e2)"
    by (cases "get [''rev-parse'', remote]")
  obtain v3 e3 where g3: "get [''merge-base'', head_rev, remote] = (v3, e3)"
    by (cases "get [''merge-base'', head_rev, remote]")
  from assms g1 g2 g3 have some: "e1 \<noteq> None \<or> e2 \<noteq> None \<or> e3 \<noteq> None" by simp
  show ?thesis
  proof (cases e1)
    case (Some a)
    with g1 g2 g3 show ?thesis by (simp add: RemoteStatus_def)
  next
    case n1: None
    show ?thesis
    proof (cases e2)
      case (Some a)
      with n1 g1 g2 g3 show ?thesis by (simp add: RemoteStatus_def)
    next
      case n2: None
      with n1 some obtain a where "e3 = Some a" by auto
      with n1 n2 g1 g2 g3 show ?thesis by (simp add: RemoteStatus_def)
    qed
  qed
qed

theorem RemoteStatus_failure_witness:
  "snd (no_remote_ref [''rev-parse'', head_rev]) = None
 \<and> snd (no_remote_ref [''rev-parse'', ''origin/gone'']) = Some (CmdError ''exit status 128'')
 \<and> RemoteStatus no_remote_ref ''origin/gone'' = ('''', Some (CmdError ''exit status 128''))
 \<and> fst (RemoteStatus no_remote_ref ''origin/gone'') \<notin> {''='', ''-1'', ''+1'', ''-1+1''}"
proof -
  have h1: "snd (no_remote_ref [''rev-parse'', head_rev]) = None"
    by (simp add: no_remote_ref_def head_rev_def)
  have h2: "snd (no_remote_ref [''rev-parse'', ''origin/gone'']) = Some (CmdError ''exit status 128'')"
    by (simp add: no_remote_ref_def)
  from h2 have h: "snd (no_remote_ref [''rev-parse'', head_rev]) \<noteq> None
         \<or> snd (no_remote_ref [''rev-parse'', ''origin/gone'']) \<noteq> None
         \<or> snd (no_remote_ref [''merge-base'', head_rev, ''origin/gone'']) \<noteq> None"
    by simp
  from RemoteStatus_failure [OF h] h1 h2 show ?thesis by blast
qed

section \<open>Trimming\<close>

text \<open>
  C6, as the spec states it, fails: \<^const>\<open>RemoteStatus\<close> compares the outputs of
  \<^verbatim>\<open>Get\<close> as they are. A local revision that carries a line feed the other two lack
  is reported as \<open>+1\<close>, while the trimmed identifiers are equal.
\<close>

theorem RemoteStatus_trim_counterexample:
  "fst (RemoteStatus (revs ''origin/master'' (''abc'' @ [newline]) ''abc'' ''abc'') ''origin/master'')
     \<noteq> fst (RemoteStatus (revs ''origin/master'' (trim (''abc'' @ [newline])) (trim ''abc'') (trim ''abc''))
                ''origin/master'')"
  by (simp add: RemoteStatus_resolved [OF revs_answers] trim_def is_space_def newline_def)

lemma same_padding_eq_iff:
  assumes "x = p @ trim x @ q" and "y = p @ trim y @ q"
  shows "x = y \<longleftrightarrow> trim x = trim y"
proof
  assume "x = y" then show "trim x = trim y" by simp
next
  assume "trim x = trim y"
  with assms show "x = y" by metis
qed

text \<open>
  C6 as amended. \<^const>\<open>RemoteStatus\<close> compares the three outputs by plain string
  equality, with no trimming. Its result on \<open>(x, y, z)\<close> is the result on the trimmed
  identifiers whenever the three outputs carry the same surrounding white space (the same
  prefix \<open>p\<close> and suffix \<open>q\<close> around each trimmed identifier, as when every output ends
  in one line feed); and two outputs that differ, be it only in surrounding white space,
  are never reported as \<open>=\<close>.
\<close>

theorem RemoteStatus_untrimmed:
  assumes "get [''rev-parse'', head_rev] = (x, None)"
    and "get [''rev-parse'', remote] = (y, None)"
    and "get [''merge-base'', head_rev, remote] = (z, None)"
    and "get' [''rev-parse'', head_rev] = (trim x, None)"
    and "get' [''rev-parse'', remote] = (trim y, None)"
    and "get' [''merge-base'', head_rev, remote] = (trim z, None)"
  shows "(x = p @ trim x @ q \<and> y = p @ trim y @ q \<and> z = p @ trim z @ q
            \<longrightarrow> RemoteStatus get remote = RemoteStatus get' remote)
       \<and> (x \<noteq> y \<longrightarrow> RemoteStatus get remote \<noteq> (''='', None))"
proof -
  note raw = RemoteStatus_resolved [OF assms(1,2,3)]
  note trimmed = RemoteStatus_resolved [OF assms(4,5,6)]
  have "RemoteStatus get remote = RemoteStatus get' remote"
    if pad: "x = p @ trim x @ q \<and> y = p @ trim y @ q \<and> z = p @ trim z @ q"
  proof -
    from pad have "x = y \<longleftrightarrow> trim x = trim y" "x = z \<longleftrightarrow> trim x = trim z" "y = z \<longleftrightarrow> trim y = trim z"
      by (simp_all add: same_padding_eq_iff [of _ p q])
    then show ?thesis by (simp add: raw trimmed)
  qed
  moreover have "x \<noteq> y \<longrightarrow> RemoteStatus get remote \<noteq> (''='', None)"
    by (simp add: raw)
  ultimately show ?thesis by blast
qed

theorem RemoteStatus_untrimmed_witness:
  "RemoteStatus (revs ''origin/master'' (''a1'' @ [newline]) (''b2'' @ [newline]) (''a1'' @ [newline])) ''origin/master''
     = RemoteStatus (revs ''origin/master'' (trim (''a1'' @ [newline])) (trim (''b2'' @ [newline])) (trim (''a1'' @ [newline])))
         ''origin/master''
 \<and> RemoteStatus (revs ''origin/master'' (''a1'' @ [newline]) (''b2'' @ [newline]) (''a1'' @ [newline])) ''origin/master''
     \<noteq> (''='', None)"
proof -
  have pad: "''a1'' @ [newline] = [] @ trim (''a1'' @ [newline]) @ [newline]"
            "''b2'' @ [newline] = [] @ trim (''b2'' @ [newline]) @ [newline]"
    by (simp_all add: trim_def is_space_def newline_def)
  have ne: "''a1'' @ [newline] \<noteq> ''b2'' @ [newline]" by simp
  note inst = RemoteStatus_untrimmed [where x = "''a1'' @ [newline]" and y = "''b2'' @ [newline]"
      and z = "''a1'' @ [newline]" and p = "[]" and q = "[newline]" and remote = "''origin/master''",
      OF revs_answers revs_answers]
  from inst pad ne show ?thesis by blast
qed

section \<open>Lines and patterns\<close>

lemma Split_nonempty: "Split s \<noteq> []"
  by (induction s) (auto split: list.splits)

lemma Split_no_newline: "l \<in> set (Split s) \<Longrightarrow> newline \<notin> set l"
proof (induction s arbitrary: l)
  case Nil
  then show ?case by simp
next
  case (Cons c cs)
  show ?case
  proof (cases "c = newline")
    case True
    with Cons show ?thesis by auto
  next
    case False
    obtain h t where st: "Split cs = h # t"
      using Split_nonempty [of cs] by (cases "Split cs") auto
    with False Cons.prems have "l = c # h \<or> l \<in> set t" by simp
    moreover have "newline \<notin> set h" using Cons.IH [of h] st by simp
    moreover have "l \<in> set t \<Longrightarrow> newline \<notin> set l" using Cons.IH [of l] st by simp
    ultimately show ?thesis using False by auto
  qed
qed

text \<open>On a text without a line feed, the greedy \<^verbatim>\<open>(.*)$\<close> takes all of it first.\<close>

lemma star_dot_eot:
  assumes "newline \<notin> set p"
  shows "\<exists>rest. matches (Cat (Grp (Star Dot)) Eot) p = ([p], []) # rest"
proof -
  have tw: "takeWhile (in_cls Dot) p = p"
    using assms by (auto intro: takeWhile_eq_all_conv [THEN iffD2])
  show ?thesis
    by (simp add: tw rev_map [symmetric] del: upt_Suc add: upt_Suc_append)
qed

lemma matches_Cat_single:
  "matches r1 s = [(g1, s1)] \<Longrightarrow>
     matches (Cat r1 r2) s = map (\<lambda>(g2, s2). (g1 @ g2, s2)) (matches r2 s1)"
  by simp

lemma ReadyRE_match:
  assumes "X \<in> set ''ADM''" and "newline \<notin> set p"
  shows "FindStringSubmatch ReadyRE (X # ''  '' @ p) = Some [X # ''  '' @ p, [X], p]"
proof -
  obtain rest where r: "matches (Cat (Grp (Star Dot)) Eot) p = ([p], []) # rest"
    using star_dot_eot [OF assms(2)] by blast
  have m1: "matches (Grp (One (OneOf ''ADM''))) (X # ''  '' @ p) = [([[X]], ''  '' @ p)]"
    using assms(1) by auto
  have m2: "matches (Str ''  '') (''  '' @ p) = [([], p)]"
    by simp
  have "matches ReadyRE (X # ''  '' @ p) =
          map (\<lambda>(g2, s2). ([[X]] @ g2, s2)) (map (\<lambda>(g2, s2). ([] @ g2, s2)) (([p], []) # rest))"
    by (simp only: ReadyRE_def matches_Cat_single [OF m1] matches_Cat_single [OF m2] r)
  then show ?thesis
    by (simp add: FindStringSubmatch_def)
qed

section \<open>The loop of GetStatus\<close>

lemma paths_add: "paths (add k f m) k' = (if k' = k then paths m k @ [f] else paths m k')"
  by (simp add: add_def paths_def)

lemma paths_add_mono: "f \<in> set (paths m k) \<Longrightarrow> f \<in> set (paths (add k' f' m) k)"
  by (auto simp: paths_add)

lemma paths_init: "paths (init u Map.empty) k = []"
  by (simp add: init_def paths_def Let_def)

text \<open>No line changes the not-ready record: the loop never writes to it.\<close>

lemma NotReady_classify: "NotReady (classify l gs) = NotReady gs"
  by (simp add: classify_def Let_def split: option.splits)

lemma NotReady_fold_classify: "NotReady (fold classify ls gs) = NotReady gs"
  by (induction ls arbitrary: gs) (simp_all add: NotReady_classify)

lemma NotReady_GetStatus: "NotReady (GetStatus get) = init True Map.empty"
  by (simp add: GetStatus_def Let_def NotReady_fold_classify split: prod.splits)

text \<open>A path in the ready record stays there.\<close>

lemma Ready_classify_mono:
  "f \<in> set (paths (Ready gs) k) \<Longrightarrow> f \<in> set (paths (Ready (classify l gs)) k)"
  by (auto simp: classify_def Let_def paths_add_mono split: option.splits)

lemma Ready_fold_classify_mono:
  "f \<in> set (paths (Ready gs) k) \<Longrightarrow> f \<in> set (paths (Ready (fold classify ls gs)) k)"
  by (induction ls arbitrary: gs) (simp_all add: Ready_classify_mono)

lemma Ready_classify_ready_line:
  assumes "FindStringSubmatch ReadyRE l = Some [l, k, f]"
  shows "f \<in> set (paths (Ready (classify l gs)) k)"
  using assms by (auto simp: classify_def Let_def paths_add split: option.splits)

lemma Ready_fold_classify_ready_line:
  assumes "FindStringSubmatch ReadyRE l = Some [l, k, f]" and "l \<in> set ls"
  shows "f \<in> set (paths (Ready (fold classify ls gs)) k)"
  using assms(2)
proof (induction ls arbitrary: gs)
  case Nil
  then show ?case by simp
next
  case (Cons a ls)
  show ?case
  proof (cases "a = l")
    case True
    then show ?thesis
      using Ready_classify_ready_line [OF assms(1), of gs]
      by (simp add: Ready_fold_classify_mono)
  next
    case False
    with Cons show ?thesis by simp
  qed
qed

section \<open>Ready lines\<close>

text \<open>
  C3. Let the status report be any text one of whose lines is \<open>X\<close>, two spaces and
  \<open>path\<close>, with \<open>X\<close> one of \<open>A\<close>, \<open>D\<close>, \<open>M\<close>. Then \<^const>\<open>GetStatus\<close> has \<open>path\<close>
  under kind \<open>X\<close> in the ready record, and under no kind in the not-ready record.
\<close>

theorem GetStatus_ready_line:
  assumes "get [''status'', ''--porcelain''] = (s, None)"
    and "X \<in> set ''ADM''"
    and "X # ''  '' @ path \<in> set (Split s)"
  shows "path \<in> set (paths (Ready (GetStatus get)) [X])
       \<and> (\<forall>k. path \<notin> set (paths (NotReady (GetStatus get)) k))"
proof -
  from assms(3) have nonempty: "s \<noteq> []" by auto
  have nl: "newline \<notin> set path"
    using Split_no_newline [OF assms(3)] by simp
  have "path \<in> set (paths (Ready (fold classify (Split s)
          \<lparr>Ready = init False Map.empty, NotReady = init True Map.empty, Err = None\<rparr>)) [X])"
    using Ready_fold_classify_ready_line [OF ReadyRE_match [OF assms(2) nl] assms(3)] .
  then have "path \<in> set (paths (Ready (GetStatus get)) [X])"
    using assms(1) nonempty by (simp add: GetStatus_def failed_def)
  moreover have "path \<notin> set (paths (NotReady (GetStatus get)) k)" for k
    by (simp add: NotReady_GetStatus paths_init)
  ultimately show ?thesis by blast
qed

theorem GetStatus_ready_line_witness:
  "CHR ''M'' \<in> set ''ADM''
 \<and> CHR ''M'' # ''  '' @ ''src/main.go'' \<in> set (Split porcelain_example)
 \<and> ''src/main.go'' \<in> set (paths (Ready (GetStatus (status_is porcelain_example))) ''M'')
 \<and> ''src/main.go'' \<notin> set (paths (NotReady (GetStatus (status_is porcelain_example))) ''M'')"
proof -
  have h1: "status_is porcelain_example [''status'', ''--porcelain''] = (porcelain_example, None)"
    by (simp add: status_is_def)
  have h2: "CHR ''M'' \<in> set ''ADM''" by simp
  have h3: "CHR ''M'' # ''  '' @ ''src/main.go'' \<in> set (Split porcelain_example)"
    by code_simp
  from GetStatus_ready_line [where get = "status_is porcelain_example" and s = porcelain_example
      and X = "CHR ''M''" and path = "''src/main.go''", OF h1 h2 h3] h2 h3
  show ?thesis by blast
qed

section \<open>Not-ready lines\<close>

text \<open>
  C1 does not hold of the code. Line 49 adds the match of the not-ready pattern to the
  ready record, and nothing is ever added to the not-ready record: whatever the binary
  prints, the not-ready record holds no path under any kind. On the report
  \<^verbatim>\<open>" ? newfile.txt"\<close> the path is under kind \<open>?\<close> of the ready record.
\<close>

theorem GetStatus_not_ready_line_misfiled:
  "paths (NotReady (GetStatus get)) k = []
 \<and> paths (NotReady (GetStatus (status_is '' ? newfile.txt''))) ''?'' = []
 \<and> paths (Ready (GetStatus (status_is '' ? newfile.txt''))) ''?'' = [''newfile.txt'']"
proof -
  have "paths (NotReady (GetStatus g)) k' = []" for g k'
    by (simp add: NotReady_GetStatus paths_init)
  moreover have "paths (Ready (GetStatus (status_is '' ? newfile.txt''))) ''?'' = [''newfile.txt'']"
    by code_simp
  ultimately show ?thesis by simp
qed

text \<open>
  C2 does not hold of the code, by the same line 49. On the end-to-end example of the
  spec the ready record has the kind \<open>?\<close>, with the untracked file under it, beside the
  two staged files; the not-ready record is empty.
\<close>

theorem GetStatus_ready_has_untracked:
  "Ready (GetStatus (status_is porcelain_example)) ''?'' = Some [''notes.txt'']
 \<and> ''?'' \<in> dom (Ready (GetStatus (status_is porcelain_example)))
 \<and> paths (Ready (GetStatus (status_is porcelain_example))) ''M'' = [''src/main.go'']
 \<and> paths (Ready (GetStatus (status_is porcelain_example))) ''A'' = [''README.md'']
 \<and> paths (NotReady (GetStatus (status_is porcelain_example))) ''?'' = []"
proof -
  have "Ready (GetStatus (status_is porcelain_example)) ''?'' = Some [''notes.txt'']"
    by code_simp
  moreover have "paths (Ready (GetStatus (status_is porcelain_example))) ''M'' = [''src/main.go'']"
    by code_simp
  moreover have "paths (Ready (GetStatus (status_is porcelain_example))) ''A'' = [''README.md'']"
    by code_simp
  moreover have "paths (NotReady (GetStatus (status_is porcelain_example))) ''?'' = []"
    by (simp add: NotReady_GetStatus paths_init)
  ultimately show ?thesis by (simp add: domI)
qed

section \<open>The commit gate\<close>

text \<open>
  C7. When the ready record of the snapshot has no tracked entry, \<^const>\<open>Commit\<close> with
  \<open>errorIfEmpty\<close> returns the error "No files to commit. Please check", and without it
  returns no error; in both cases no command is handed to \<^verbatim>\<open>Do\<close>.
\<close>

theorem Commit_nothing_ready:
  assumes "CountTracked (Ready (GetStatus get)) = 0"
  shows "Commit get run msg True = (Some (Errorf ''No files to commit. Please check''), [])
       \<and> Commit get run msg False = (None, [])"
  using assms by (simp add: Commit_def Let_def)

theorem Commit_nothing_ready_witness:
  "CountTracked (Ready (GetStatus (status_is (''?? notes.txt'' @ [newline])))) = 0
 \<and> Commit (status_is (''?? notes.txt'' @ [newline])) (\<lambda>opts. 1) ''msg'' True
       = (Some (Errorf ''No files to commit. Please check''), [])
 \<and> Commit (status_is (''?? notes.txt'' @ [newline])) (\<lambda>opts. 1) ''msg'' False = (None, [])"
proof -
  have h: "CountTracked (Ready (GetStatus (status_is (''?? notes.txt'' @ [newline])))) = 0"
    by code_simp
  from Commit_nothing_ready [OF h, of "\<lambda>opts. 1" "''msg''"] h show ?thesis by blast
qed

text \<open>
  C8 does not hold of the code. When the status query fails, \<^const>\<open>GetStatus\<close> records
  the error in \<open>Err\<close> and returns the two fresh records; \<^const>\<open>Commit\<close> never reads
  \<open>Err\<close>, finds no tracked entry, and returns the "No files to commit" error or, without
  \<open>errorIfEmpty\<close>, no error at all.
\<close>

theorem Commit_swallows_status_error:
  "Err (GetStatus git_fails) = Some (CmdError ''exit status 128'')
 \<and> Commit git_fails (\<lambda>opts. 0) ''msg'' True = (Some (Errorf ''No files to commit. Please check''), [])
 \<and> Commit git_fails (\<lambda>opts. 0) ''msg'' False = (None, [])"
proof -
  have "Err (GetStatus git_fails) = Some (CmdError ''exit status 128'')"
    by (simp add: GetStatus_def git_fails_def failed_def)
  moreover have "CountTracked (Ready (GetStatus git_fails)) = 0"
    by (simp add: GetStatus_def git_fails_def failed_def CountTracked_def paths_init)
  ultimately show ?thesis by (simp add: Commit_def Let_def)
qed

section \<open>RemoteUrl\<close>

text \<open>
  C9 does not hold of the code. Line 207 compares \<open>v[0]\<close>, the whole matched line, with
  the requested name, and line 208 returns \<open>v[1]\<close>, the name. The fetch line of remote
  \<open>origin\<close> has the name \<open>origin\<close> extracted; asked for \<open>origin\<close>, \<^const>\<open>RemoteUrl\<close>
  reports "not found" on that line alone and panics on the listing as git prints it;
  asked for the whole fetch line, it reports "found" and returns the name.
\<close>

theorem RemoteUrl_compares_whole_line:
  "FindStringSubmatch remMatch fetch_line
     = Some [fetch_line, ''origin'', tab # ''https://example.com/r.git'', ''fetch'']
 \<and> RemoteUrl (remotes_are fetch_line) ''origin'' = Inr ('''', False, None)
 \<and> RemoteUrl (remotes_are remote_listing) ''origin'' = Inl IndexOutOfRange
 \<and> RemoteUrl (remotes_are remote_listing) fetch_line = Inr (''origin'', True, None)"
proof -
  have "FindStringSubmatch remMatch fetch_line
          = Some [fetch_line, ''origin'', tab # ''https://example.com/r.git'', ''fetch'']"
    by code_simp
  moreover have "RemoteUrl (remotes_are fetch_line) ''origin'' = Inr ('''', False, None)"
    by code_simp
  moreover have "RemoteUrl (remotes_are remote_listing) ''origin'' = Inl IndexOutOfRange"
    by code_simp
  moreover have "RemoteUrl (remotes_are remote_listing) fetch_line = Inr (''origin'', True, None)"
    by code_simp
  ultimately show ?thesis by blast
qed

text \<open>
  C10 does not hold of the code. The listing git prints ends in a line feed, so its last
  line is empty; the pattern does not match it, \<open>v\<close> is \<^verbatim>\<open>nil\<close>, and \<open>v[0]\<close> panics.
  Asked for a remote the listing does not have, \<^const>\<open>RemoteUrl\<close> reaches that line.
\<close>

theorem RemoteUrl_panics_on_last_line:
  "Split remote_listing = [fetch_line, push_line, '''']
 \<and> FindStringSubmatch remMatch '''' = None
 \<and> RemoteUrl (remotes_are remote_listing) ''upstream'' = Inl IndexOutOfRange"
proof -
  have "Split remote_listing = [fetch_line, push_line, '''']"
    by code_simp
  moreover have "FindStringSubmatch remMatch '''' = None"
    by code_simp
  moreover have "RemoteUrl (remotes_are remote_listing) ''upstream'' = Inl IndexOutOfRange"
    by code_simp
  ultimately show ?thesis by blast
qed

end
